theory Spec2Isabelle
  imports Complex_Main
begin

section \<open>The ButtonDrop component (src/components/ButtonDrop.vue)\<close>

text \<open>
  The component keeps a dozen reactive references and mutates them from event handlers
  and from a frame callback. The embedding below turns the references into the fields of
  one record and every handler into a function from the record to the updated record.

  JavaScript numbers are modelled as \<^typ>\<open>real\<close>: arithmetic is exact, and the values
  \<open>NaN\<close> and \<open>Infinity\<close> do not exist. What the handlers read from the host (the
  window's size, the scroll offset, the clock) is passed in as a record of its own.
\<close>

subsection \<open>Data\<close>

text \<open>
  The references of lines 5 to 16. The reference \<open>buttonRef\<close> is never read by the script
  and is left out. The last two fields are not references of the component: they are the
  host's queue of requested animation frames, which \<open>requestAnimationFrame\<close> and
  \<open>cancelAnimationFrame\<close> act on. Handles are positive, and the queue keeps the order
  of the requests.
\<close>

record state =
  isDragging :: bool
  posX :: real
  posY :: real
  startX :: real
  startY :: real
  velocityX :: real
  velocityY :: real
  rotation :: real
  angularVelocity :: real
  hasDropped :: bool
  lastTime :: real
  animationId :: nat
  pending :: "nat list"
  nextHandle :: nat

text \<open>What a handler reads from the host when it runs.\<close>

record env =
  innerWidth :: real
  innerHeight :: real
  scrollY :: real
  now :: real

text \<open>A mouse event carries its coordinates, a touch event the list of its touches.\<close>

datatype pointer_event = MouseEvent real real | TouchEvent "(real \<times> real) list"

text \<open>
  A handler either runs to its end, or stops at a \<open>TypeError\<close> (reading \<open>clientX\<close> of
  \<open>e.touches[0]\<close> when there is no touch) with the references as they are at that point.
\<close>

datatype outcome = Done state | TypeError state

fun state_of :: "outcome \<Rightarrow> state" where
  "state_of (Done s) = s"
| "state_of (TypeError s) = s"

subsection \<open>Physical parameters (lines 19 to 25)\<close>

definition friction :: real where "friction = 0.98"
definition bounce :: real where "bounce = 0.7"
definition gravity :: real where "gravity = 0.5"
definition buttonWidth :: real where "buttonWidth = 120"
definition buttonHeight :: real where "buttonHeight = 56"
definition rotationFriction :: real where "rotationFriction = 0.96"
definition rotationMultiplier :: real where "rotationMultiplier = 0.2"

subsection \<open>JavaScript arithmetic\<close>

text \<open>
  The remainder operator \<open>%\<close> truncates the quotient towards zero, so its result has the
  sign of the dividend. \<open>Math.round\<close> rounds to the nearest integer, a half upwards.
\<close>

definition js_trunc :: "real \<Rightarrow> int" where
  "js_trunc x = (if 0 \<le> x then \<lfloor>x\<rfloor> else \<lceil>x\<rceil>)"

definition js_rem :: "real \<Rightarrow> real \<Rightarrow> real" where
  "js_rem a b = a - b * of_int (js_trunc (a / b))"

definition math_round :: "real \<Rightarrow> real" where
  "math_round x = of_int \<lfloor>x + 1 / 2\<rfloor>"

subsection \<open>The host's frame queue\<close>

definition requestAnimationFrame :: "state \<Rightarrow> nat \<times> state" where
  "requestAnimationFrame s =
     (nextHandle s, s\<lparr>pending := pending s @ [nextHandle s], nextHandle := Suc (nextHandle s)\<rparr>)"

definition cancelAnimationFrame :: "nat \<Rightarrow> state \<Rightarrow> state" where
  "cancelAnimationFrame h s = s\<lparr>pending := removeAll h (pending s)\<rparr>"

subsection \<open>handleScroll (lines 27 to 32)\<close>

definition handleScroll :: "env \<Rightarrow> state \<Rightarrow> state" where
  "handleScroll e s =
     (if \<not> hasDropped s \<and> scrollY e > 50
      then s\<lparr>hasDropped := True, posY := innerHeight e - buttonHeight - 20\<rparr>
      else s)"

subsection \<open>Pointer coordinates (lines 41, 42, 52, 53)\<close>

fun client :: "pointer_event \<Rightarrow> (real \<times> real) option" where
  "client (MouseEvent x y) = Some (x, y)"
| "client (TouchEvent []) = None"
| "client (TouchEvent (t # ts)) = Some t"

subsection \<open>startDrag (lines 34 to 46)\<close>

definition startDrag :: "pointer_event \<Rightarrow> state \<Rightarrow> outcome" where
  "startDrag ev s =
     (let s = cancelAnimationFrame (animationId s) s;
          s = s\<lparr>isDragging := True\<rparr>;
          s = s\<lparr>velocityX := 0\<rparr>;
          s = s\<lparr>velocityY := 0\<rparr>;
          s = s\<lparr>angularVelocity := 0\<rparr>
      in case client ev of
           None \<Rightarrow> TypeError s
         | Some (clientX, clientY) \<Rightarrow>
             Done (s\<lparr>startX := clientX - posX s, startY := clientY - posY s\<rparr>))"

subsection \<open>onDrag (lines 48 to 71)\<close>

definition onDrag :: "env \<Rightarrow> pointer_event \<Rightarrow> state \<Rightarrow> outcome" where
  "onDrag e ev s =
     (if \<not> isDragging s then Done s
      else case client ev of
        None \<Rightarrow> TypeError s
      | Some (clientX, clientY) \<Rightarrow>
          (let deltaTime = now e - lastTime s;
               s = (if deltaTime > 0
                    then (let newVelocityX = ((clientX - startX s - posX s) / deltaTime) * 1000;
                              newVelocityY = ((clientY - startY s - posY s) / deltaTime) * 1000
                          in s\<lparr>angularVelocity := (newVelocityX - velocityX s) * rotationMultiplier,
                               velocityX := newVelocityX,
                               velocityY := newVelocityY\<rparr>)
                    else s);
               s = s\<lparr>lastTime := now e\<rparr>
           in Done (s\<lparr>posX := clientX - startX s, posY := clientY - startY s\<rparr>)))"

subsection \<open>checkBoundaries (lines 79 to 114)\<close>

text \<open>
  The function has two blocks, one per axis, that run one after the other on the same
  references; each is an \<open>if\<close> with an \<open>else if\<close>. \<open>checkX\<close> is the block of lines
  84 to 96, entered with \<open>hitBoundary = false\<close>; \<open>checkY\<close> is the block of lines 98
  to 111, entered with the references and the flag that the first block leaves. The
  function returns \<open>hitBoundary\<close>.
\<close>

definition checkX :: "env \<Rightarrow> state \<Rightarrow> state \<times> bool" where
  "checkX e s =
     (let windowWidth = innerWidth e;
          hitBoundary = False
      in if posX s < 0
         then (s\<lparr>posX := 0,
                 velocityX := - velocityX s * bounce,
                 angularVelocity := - velocityY s * rotationMultiplier\<rparr>, True)
         else if posX s > windowWidth - buttonWidth
         then (s\<lparr>posX := windowWidth - buttonWidth,
                 velocityX := - velocityX s * bounce,
                 angularVelocity := velocityY s * rotationMultiplier\<rparr>, True)
         else (s, hitBoundary))"

definition checkY :: "env \<Rightarrow> state \<Rightarrow> bool \<Rightarrow> state \<times> bool" where
  "checkY e s hitBoundary =
     (let windowHeight = innerHeight e
      in if posY s < 0
         then (s\<lparr>posY := 0,
                 velocityY := - velocityY s * bounce,
                 angularVelocity := velocityX s * rotationMultiplier\<rparr>, True)
         else if posY s > windowHeight - buttonHeight
         then (s\<lparr>posY := windowHeight - buttonHeight,
                 velocityY := - velocityY s * bounce,
                 angularVelocity := - velocityX s * rotationMultiplier * 2,
                 velocityX := velocityX s * (friction * 0.9)\<rparr>, True)
         else (s, hitBoundary))"

definition checkBoundaries :: "env \<Rightarrow> state \<Rightarrow> state \<times> bool" where
  "checkBoundaries e s =
     (let (s, hitBoundary) = checkX e s
      in checkY e s hitBoundary)"

subsection \<open>animate (lines 116 to 158)\<close>

text \<open>
  Lines 119 to 138: the clock, gravity and friction, the move, the boundary check and the
  rotation. The result is the state before the settlement test, with \<open>hitBoundary\<close>.
\<close>

definition integrate :: "env \<Rightarrow> state \<Rightarrow> state \<times> bool" where
  "integrate e s =
     (let deltaTime = min (now e - lastTime s) 50;
          s = s\<lparr>lastTime := now e\<rparr>;
          s = s\<lparr>velocityY := velocityY s + gravity\<rparr>;
          s = s\<lparr>velocityX := velocityX s * friction\<rparr>;
          s = s\<lparr>velocityY := velocityY s * friction\<rparr>;
          s = s\<lparr>posX := posX s + (velocityX s * deltaTime) / 1000\<rparr>;
          s = s\<lparr>posY := posY s + (velocityY s * deltaTime) / 1000\<rparr>;
          (s, hitBoundary) = checkBoundaries e s;
          s = s\<lparr>angularVelocity := angularVelocity s * rotationFriction\<rparr>;
          s = s\<lparr>rotation := rotation s + (angularVelocity s * deltaTime) / 1000\<rparr>;
          s = s\<lparr>rotation := js_rem (rotation s) 360\<rparr>
      in (s, hitBoundary))"

text \<open>The condition of lines 141 to 146.\<close>

definition settled :: "env \<Rightarrow> state \<Rightarrow> bool" where
  "settled e s \<longleftrightarrow>
     \<bar>velocityX s\<bar> < 0.01 \<and> \<bar>velocityY s\<bar> < 0.05 \<and> \<bar>angularVelocity s\<bar> < 0.01 \<and>
     posY s \<ge> innerHeight e - buttonHeight"

definition animate :: "env \<Rightarrow> state \<Rightarrow> state" where
  "animate e s =
     (if isDragging s then s
      else
        (let (s, hitBoundary) = integrate e s
         in if settled e s
            then (let s = s\<lparr>velocityX := 0\<rparr>;
                      s = s\<lparr>velocityY := 0\<rparr>;
                      s = s\<lparr>angularVelocity := 0\<rparr>
                  in if \<not> hitBoundary
                     then s\<lparr>rotation := math_round (rotation s / 90) * 90\<rparr>
                     else s)
            else (let (h, s) = requestAnimationFrame s
                  in s\<lparr>animationId := h\<rparr>)))"

subsection \<open>stopDrag (lines 73 to 77)\<close>

text \<open>
  The handler reads the clock at line 75, and \<open>animate\<close> reads it again: the second
  argument is the host as \<open>animate\<close> sees it.
\<close>

definition stopDrag :: "env \<Rightarrow> env \<Rightarrow> state \<Rightarrow> state" where
  "stopDrag e e' s =
     (let s = s\<lparr>isDragging := False\<rparr>;
          s = s\<lparr>lastTime := now e\<rparr>
      in animate e' s)"

subsection \<open>Mounting and the events of the host (lines 160 to 171)\<close>

text \<open>
  The state after \<open>onMounted\<close>: the initial values of the references, the position set by
  lines 162 and 163, and an empty frame queue whose first handle will be 1.
\<close>

definition mounted :: "env \<Rightarrow> state" where
  "mounted e =
     \<lparr>isDragging = False, posX = innerWidth e / 2 - buttonWidth / 2, posY = 20,
      startX = 0, startY = 0, velocityX = 0, velocityY = 0, rotation = 0,
      angularVelocity = 0, hasDropped = False, lastTime = 0, animationId = 0,
      pending = [], nextHandle = 1\<rparr>"

text \<open>
  The listeners registered by \<open>onMounted\<close> and by the template: \<open>scroll\<close> runs
  \<open>handleScroll\<close>; \<open>mousedown\<close> and \<open>touchstart\<close> on the button run \<open>startDrag\<close>;
  \<open>mousemove\<close> and \<open>touchmove\<close> run \<open>onDrag\<close>; \<open>mouseup\<close> and \<open>touchend\<close> anywhere
  in the document run \<open>stopDrag\<close>; \<open>resize\<close> runs \<open>checkBoundaries\<close>. \<open>Frame\<close> is the
  host running the oldest requested frame callback, which is always \<open>animate\<close>.
  Each event comes with the host as its handler sees it; the two readings of the clock
  in one run of \<open>stopDrag\<close> are taken to be the same.
\<close>

datatype event =
  Scroll
| PointerDown pointer_event
| PointerMove pointer_event
| PointerUp
| Resize
| Frame

fun step :: "state \<Rightarrow> env \<times> event \<Rightarrow> state" where
  "step s (e, Scroll) = handleScroll e s"
| "step s (e, PointerDown ev) = state_of (startDrag ev s)"
| "step s (e, PointerMove ev) = state_of (onDrag e ev s)"
| "step s (e, PointerUp) = stopDrag e e s"
| "step s (e, Resize) = fst (checkBoundaries e s)"
| "step s (e, Frame) =
     (case pending s of
        [] \<Rightarrow> s
      | h # hs \<Rightarrow> animate e (s\<lparr>pending := hs\<rparr>))"

definition run :: "state \<Rightarrow> (env \<times> event) list \<Rightarrow> state" where
  "run s evs = foldl step s evs"

subsection \<open>The integrator as the specification words it\<close>

text \<open>
  Steps 1 to 5 of the specification's integrator, one definition per step, for an elapsed
  time \<open>dt\<close> that is given. They are compared with \<open>integrate\<close> below.
\<close>

definition spec_gravity :: "state \<Rightarrow> state" where
  "spec_gravity s = s\<lparr>velocityY := velocityY s + gravity\<rparr>"

definition spec_friction :: "state \<Rightarrow> state" where
  "spec_friction s = s\<lparr>velocityX := velocityX s * friction, velocityY := velocityY s * friction\<rparr>"

definition spec_advance :: "real \<Rightarrow> state \<Rightarrow> state" where
  "spec_advance dt s =
     s\<lparr>posX := posX s + velocityX s * dt / 1000, posY := posY s + velocityY s * dt / 1000\<rparr>"

definition spec_rotate :: "real \<Rightarrow> state \<Rightarrow> state" where
  "spec_rotate dt s =
     (let w = angularVelocity s * rotationFriction
      in s\<lparr>angularVelocity := w, rotation := js_rem (rotation s + w * dt / 1000) 360\<rparr>)"

definition spec_tick :: "real \<Rightarrow> env \<Rightarrow> state \<Rightarrow> state \<times> bool" where
  "spec_tick dt e s =
     (let (b, hit) = checkBoundaries e (spec_advance dt (spec_friction (spec_gravity s)))
      in (spec_rotate dt b, hit))"

subsection \<open>Concrete inputs\<close>

text \<open>A viewport of 1000 by 800 pixels, read 16 milliseconds after the clock's origin.\<close>

definition viewport :: env where
  "viewport = \<lparr>innerWidth = 1000, innerHeight = 800, scrollY = 0, now = 16\<rparr>"

text \<open>
  A body on the floor of that viewport (800 - 56 = 744), turned by 83 degrees, with the
  velocities of the specification's scenario C.
\<close>

definition scenarioC :: state where
  "scenarioC =
     \<lparr>isDragging = False, posX = 440, posY = 744, startX = 0, startY = 0,
      velocityX = 0.005, velocityY = 0.02, rotation = 83, angularVelocity = 0.005,
      hasDropped = True, lastTime = 0, animationId = 0, pending = [], nextHandle = 1\<rparr>"

text \<open>
  The same body with no horizontal motion and no spin, and the one upward velocity that
  the tick's gravity cancels.
\<close>

definition balanced :: state where
  "balanced = scenarioC\<lparr>velocityX := 0, velocityY := - 0.5, angularVelocity := 0\<rparr>"

text \<open>A body in mid-air that spins backwards.\<close>

definition spinning :: state where
  "spinning = scenarioC\<lparr>posY := 100, velocityX := 0, velocityY := 0, rotation := 0,
     angularVelocity := - 100, lastTime := - 1000\<rparr>"

text \<open>A body past the right edge and above the top edge, moving right and down.\<close>

definition corner :: state where
  "corner = scenarioC\<lparr>posX := 900, posY := - 5, velocityX := 500, velocityY := 1,
     angularVelocity := 0\<rparr>"

text \<open>A body past the right edge, between ceiling and floor.\<close>

definition rightwall :: state where
  "rightwall = scenarioC\<lparr>posX := 900, posY := 300, velocityX := 500, velocityY := 40,
     angularVelocity := 0\<rparr>"

text \<open>
  A viewport smaller than the button in both directions, and a body that sticks out of it
  on all four sides.
\<close>

definition slit :: env where
  "slit = \<lparr>innerWidth = 100, innerHeight = 40, scrollY = 0, now = 16\<rparr>"

definition above :: state where
  "above = scenarioC\<lparr>posX := - 5, posY := - 5, velocityX := 10, velocityY := - 20,
     angularVelocity := 0\<rparr>"

text \<open>A body that has sunk below the floor of the first viewport.\<close>

definition sunk :: state where
  "sunk = scenarioC\<lparr>posY := 750, velocityX := 10, velocityY := 20, angularVelocity := 0\<rparr>"

text \<open>
  Four events after mounting: a pointer is released somewhere in the document, the host
  runs the requested frame, a pointer is released again, and the button is grabbed. The
  fifth and sixth release the button and run the oldest requested frame.
\<close>

definition clicks :: "(env \<times> event) list" where
  "clicks =
     [(viewport, PointerUp),
      (viewport\<lparr>now := 32\<rparr>, Frame),
      (viewport\<lparr>now := 40\<rparr>, PointerUp),
      (viewport\<lparr>now := 45\<rparr>, PointerDown (MouseEvent 500 30))]"

definition release :: "(env \<times> event) list" where
  "release = [(viewport\<lparr>now := 46\<rparr>, PointerUp), (viewport\<lparr>now := 48\<rparr>, Frame)]"

text \<open>The host reports a scroll offset of 60 pixels.\<close>

definition scrolled :: env where
  "scrolled = viewport\<lparr>scrollY := 60\<rparr>"





section \<open>Properties\<close>

lemmas params = friction_def bounce_def gravity_def buttonWidth_def buttonHeight_def
  rotationFriction_def rotationMultiplier_def

subsection \<open>What the boundary check leaves in each reference\<close>

lemmas checks = checkBoundaries_def checkX_def checkY_def Let_def case_prod_beta

lemma checkX_velocityX:
  "velocityX (fst (checkX e s)) =
     (if posX s < 0 \<or> posX s > innerWidth e - buttonWidth
      then - velocityX s * bounce else velocityX s)"
  by (simp add: checkX_def Let_def)

lemma checkBoundaries_posX:
  "posX (fst (checkBoundaries e s)) =
     (if posX s < 0 then 0
      else if posX s > innerWidth e - buttonWidth then innerWidth e - buttonWidth
      else posX s)"
  by (simp add: checks)

lemma checkBoundaries_posY:
  "posY (fst (checkBoundaries e s)) =
     (if posY s < 0 then 0
      else if posY s > innerHeight e - buttonHeight then innerHeight e - buttonHeight
      else posY s)"
  by (simp add: checks)

lemma checkBoundaries_hit:
  "snd (checkBoundaries e s) \<longleftrightarrow>
     posX s < 0 \<or> posX s > innerWidth e - buttonWidth \<or>
     posY s < 0 \<or> posY s > innerHeight e - buttonHeight"
  by (simp add: checks)

lemma checkBoundaries_velocityY:
  "velocityY (fst (checkBoundaries e s)) =
     (if posY s < 0 \<or> posY s > innerHeight e - buttonHeight
      then - velocityY s * bounce else velocityY s)"
  by (simp add: checks)

lemma checkBoundaries_velocityX:
  "velocityX (fst (checkBoundaries e s)) =
     (if 0 \<le> posY s \<and> posY s > innerHeight e - buttonHeight
      then velocityX (fst (checkX e s)) * (friction * 0.9)
      else velocityX (fst (checkX e s)))"
  by (simp add: checks)

lemma checkBoundaries_angularVelocity:
  "angularVelocity (fst (checkBoundaries e s)) =
     (if posY s < 0 then velocityX (fst (checkX e s)) * rotationMultiplier
      else if posY s > innerHeight e - buttonHeight
      then - velocityX (fst (checkX e s)) * rotationMultiplier * 2
      else if posX s < 0 then - velocityY s * rotationMultiplier
      else if posX s > innerWidth e - buttonWidth then velocityY s * rotationMultiplier
      else angularVelocity s)"
  by (simp add: checks)

lemma checkBoundaries_other:
  "isDragging (fst (checkBoundaries e s)) = isDragging s"
  "rotation (fst (checkBoundaries e s)) = rotation s"
  "hasDropped (fst (checkBoundaries e s)) = hasDropped s"
  "lastTime (fst (checkBoundaries e s)) = lastTime s"
  "pending (fst (checkBoundaries e s)) = pending s"
  "nextHandle (fst (checkBoundaries e s)) = nextHandle s"
  "animationId (fst (checkBoundaries e s)) = animationId s"
  "startX (fst (checkBoundaries e s)) = startX s"
  "startY (fst (checkBoundaries e s)) = startY s"
  by (simp_all add: checks)

lemma checkY_spin_overwrites:
  "posY s < 0 \<or> posY s > innerHeight e - buttonHeight \<Longrightarrow>
   angularVelocity (fst (checkY e ((fst (checkX e s))\<lparr>angularVelocity := a\<rparr>) h)) =
   angularVelocity (fst (checkBoundaries e s))"
  by (elim disjE) (simp_all add: checks)

subsection \<open>The integrator\<close>

lemma integrate_spec_tick:
  "integrate e s = spec_tick (min (now e - lastTime s) 50) e (s\<lparr>lastTime := now e\<rparr>)"
  by (simp add: integrate_def spec_tick_def spec_rotate_def spec_advance_def spec_friction_def
      spec_gravity_def Let_def split: prod.split)

lemma spec_tick_pos:
  "posX (fst (spec_tick dt e s)) =
     posX (fst (checkBoundaries e (spec_advance dt (spec_friction (spec_gravity s)))))"
  "posY (fst (spec_tick dt e s)) =
     posY (fst (checkBoundaries e (spec_advance dt (spec_friction (spec_gravity s)))))"
  by (simp_all add: spec_tick_def spec_rotate_def Let_def split: prod.split)

lemma animate_pos:
  "\<not> isDragging s \<Longrightarrow> posX (animate e s) = posX (fst (integrate e s))"
  "\<not> isDragging s \<Longrightarrow> posY (animate e s) = posY (fst (integrate e s))"
  by (simp_all add: animate_def requestAnimationFrame_def Let_def split: prod.split)

lemma integrate_other:
  "isDragging (fst (integrate e s)) = isDragging s"
  "hasDropped (fst (integrate e s)) = hasDropped s"
  "pending (fst (integrate e s)) = pending s"
  "nextHandle (fst (integrate e s)) = nextHandle s"
  "animationId (fst (integrate e s)) = animationId s"
  "startX (fst (integrate e s)) = startX s"
  "startY (fst (integrate e s)) = startY s"
  "lastTime (fst (integrate e s)) = now e"
  by (simp_all add: integrate_def Let_def case_prod_beta checkBoundaries_other)

subsection \<open>The cases of \<open>animate\<close>, and the two roundings\<close>

lemma animate_dragging: "isDragging s \<Longrightarrow> animate e s = s"
  by (simp add: animate_def)

lemma animate_settled:
  assumes "\<not> isDragging s" and "settled e (fst (integrate e s))"
  shows "animate e s =
     (let m = fst (integrate e s);
          z = m\<lparr>velocityX := 0, velocityY := 0, angularVelocity := 0\<rparr>
      in if snd (integrate e s) then z
         else z\<lparr>rotation := math_round (rotation m / 90) * 90\<rparr>)"
  using assms by (cases "integrate e s") (simp add: animate_def Let_def)

lemma animate_unsettled:
  assumes "\<not> isDragging s" and "\<not> settled e (fst (integrate e s))"
  shows "animate e s =
     (let m = fst (integrate e s)
      in m\<lparr>pending := pending m @ [nextHandle m], nextHandle := Suc (nextHandle m),
           animationId := nextHandle m\<rparr>)"
  using assms by (cases "integrate e s") (simp add: animate_def requestAnimationFrame_def Let_def)

lemma js_rem_bounds:
  assumes "0 < b"
  shows "- b < js_rem a b \<and> js_rem a b < b"
proof (cases "0 \<le> a")
  case True
  then have q: "0 \<le> a / b" using assms by simp
  have "of_int \<lfloor>a / b\<rfloor> \<le> a / b" "a / b < of_int \<lfloor>a / b\<rfloor> + 1"
    by linarith+
  then have "of_int \<lfloor>a / b\<rfloor> * b \<le> a" "a < (of_int \<lfloor>a / b\<rfloor> + 1) * b"
    using assms by (simp_all only: pos_le_divide_eq pos_divide_less_eq)
  then show ?thesis using q assms by (simp add: js_rem_def js_trunc_def algebra_simps)
next
  case False
  then have q: "\<not> 0 \<le> a / b" using assms by (simp add: field_simps)
  have "a / b \<le> of_int \<lceil>a / b\<rceil>" "of_int \<lceil>a / b\<rceil> - 1 < a / b"
    by linarith+
  then have "a \<le> of_int \<lceil>a / b\<rceil> * b" "(of_int \<lceil>a / b\<rceil> - 1) * b < a"
    using assms by (simp_all only: pos_divide_le_eq pos_less_divide_eq)
  then show ?thesis using q assms by (simp add: js_rem_def js_trunc_def algebra_simps)
qed

lemma math_round_quarter:
  assumes "- 360 < r" and "r < 360"
  shows "- 360 \<le> math_round (r / 90) * 90 \<and> math_round (r / 90) * 90 \<le> 360"
proof -
  have "- 4 < r / 90 + 1 / 2" "r / 90 + 1 / 2 < 5" using assms by simp_all
  then have "- 4 \<le> \<lfloor>r / 90 + 1 / 2\<rfloor>" "\<lfloor>r / 90 + 1 / 2\<rfloor> \<le> 4"
    by linarith+
  then have "(- 4 :: real) \<le> of_int \<lfloor>r / 90 + 1 / 2\<rfloor>" "of_int \<lfloor>r / 90 + 1 / 2\<rfloor> \<le> (4::real)"
    by linarith+
  then show ?thesis by (simp add: math_round_def)
qed

lemma integrate_rotation_bounds:
  "- 360 < rotation (fst (integrate e s)) \<and> rotation (fst (integrate e s)) < 360"
  using js_rem_bounds [of 360]
  by (simp add: integrate_def Let_def split: prod.split)

lemma integrate_velocityY:
  "velocityY (fst (integrate e s)) =
     velocityY (fst (checkBoundaries e
       (spec_advance (min (now e - lastTime s) 50)
          (spec_friction (spec_gravity (s\<lparr>lastTime := now e\<rparr>))))))"
  by (simp add: integrate_spec_tick spec_tick_def spec_rotate_def Let_def case_prod_beta)

text \<open>
  A body that lies on the floor with a vertical velocity between \<open>-0.42\<close> and \<open>0.1\<close>:
  a tick with a positive elapsed time adds gravity, pushes the body through the floor,
  and the floor branch reflects it. The velocity that the settlement test then reads is
  \<open>-0.686 * (vy + 0.5)\<close>, at least \<open>0.05\<close> in size and again in the same range, with
  the body again on the floor, so the test fails in this tick and in every later one.
\<close>

lemma integrate_posY:
  "posY (fst (integrate e s)) =
     posY (fst (checkBoundaries e
       (spec_advance (min (now e - lastTime s) 50)
          (spec_friction (spec_gravity (s\<lparr>lastTime := now e\<rparr>))))))"
  by (simp add: integrate_spec_tick spec_tick_def spec_rotate_def Let_def case_prod_beta)

lemma resting_tick_requests_another:
  assumes d: "\<not> isDragging s"
    and f: "posY s = innerHeight e - buttonHeight"
    and h: "buttonHeight \<le> innerHeight e"
    and t: "0 < now e - lastTime s"
    and lo: "- 0.42 \<le> velocityY s"
    and hi: "velocityY s \<le> 0.1"
  shows "velocityY (animate e s) = - ((velocityY s + gravity) * friction) * bounce \<and>
         - 0.42 \<le> velocityY (animate e s) \<and> velocityY (animate e s) \<le> - 0.05 \<and>
         posY (animate e s) = innerHeight e - buttonHeight \<and>
         \<not> isDragging (animate e s) \<and>
         pending (animate e s) = pending s @ [nextHandle s]"
proof -
  let ?dt = "min (now e - lastTime s) 50"
  let ?m = "spec_advance ?dt (spec_friction (spec_gravity (s\<lparr>lastTime := now e\<rparr>)))"
  have dt: "0 < ?dt" using t by simp
  have v: "velocityY ?m = (velocityY s + gravity) * friction"
    by (simp add: spec_advance_def spec_friction_def spec_gravity_def)
  have vpos: "0 < (velocityY s + gravity) * friction"
    using lo by (simp add: params)
  have p: "posY ?m = posY s + (velocityY s + gravity) * friction * ?dt / 1000"
    by (simp add: spec_advance_def spec_friction_def spec_gravity_def)
  have "0 < (velocityY s + gravity) * friction * ?dt"
    using vpos dt by (rule mult_pos_pos)
  then have below: "posY ?m > innerHeight e - buttonHeight"
    using f by (simp add: p)
  then have nonneg: "\<not> posY ?m < 0" using h by simp
  have vy: "velocityY (fst (integrate e s)) = - ((velocityY s + gravity) * friction) * bounce"
    using below by (simp add: integrate_velocityY checkBoundaries_velocityY v)
  have py: "posY (fst (integrate e s)) = innerHeight e - buttonHeight"
    using below nonneg by (simp only: integrate_posY checkBoundaries_posY if_True if_False)
  have r1: "- 0.42 \<le> - ((velocityY s + gravity) * friction) * bounce"
    using hi by (simp add: params)
  have r2: "- ((velocityY s + gravity) * friction) * bounce \<le> - 0.05"
    using lo by (simp add: params)
  have ns: "\<not> settled e (fst (integrate e s))"
    using r2 by (simp add: settled_def vy)
  from d ns have a: "animate e s =
     (let m = fst (integrate e s)
      in m\<lparr>pending := pending m @ [nextHandle m], nextHandle := Suc (nextHandle m),
           animationId := nextHandle m\<rparr>)"
    by (rule animate_unsettled)
  have "velocityY (animate e s) = velocityY (fst (integrate e s))"
    "posY (animate e s) = posY (fst (integrate e s))"
    "isDragging (animate e s) = isDragging s"
    "pending (animate e s) = pending s @ [nextHandle s]"
    by (simp_all add: a Let_def integrate_other)
  with vy py r1 r2 d show ?thesis by simp
qed

subsection \<open>The latch through every handler\<close>

lemma animate_hasDropped: "hasDropped (animate e s) = hasDropped s"
proof (cases "isDragging s")
  case True
  then show ?thesis by (simp add: animate_dragging)
next
  case False
  then show ?thesis
    by (cases "settled e (fst (integrate e s))")
       (simp_all add: animate_settled animate_unsettled Let_def integrate_other)
qed

lemma startDrag_hasDropped: "hasDropped (state_of (startDrag ev s)) = hasDropped s"
  by (simp add: startDrag_def cancelAnimationFrame_def Let_def split: option.split)

lemma onDrag_hasDropped: "hasDropped (state_of (onDrag e ev s)) = hasDropped s"
  by (simp add: onDrag_def Let_def split: option.split)

lemma handleScroll_hasDropped: "hasDropped s \<Longrightarrow> hasDropped (handleScroll e s)"
  by (simp add: handleScroll_def)

lemma step_hasDropped: "hasDropped s \<Longrightarrow> hasDropped (step s x)"
proof (cases x)
  case (Pair e ev)
  assume "hasDropped s"
  then show ?thesis unfolding Pair
    by (cases ev)
       (simp_all add: handleScroll_hasDropped startDrag_hasDropped onDrag_hasDropped
         stopDrag_def Let_def animate_hasDropped checkBoundaries_other split: list.split)
qed

lemma run_hasDropped: "hasDropped s \<Longrightarrow> hasDropped (run s evs)"
  unfolding run_def by (induction evs arbitrary: s) (simp_all add: step_hasDropped)

lemmas fixtures = viewport_def scenarioC_def balanced_def spinning_def corner_def slit_def
  above_def sunk_def rightwall_def

lemmas evaluate = animate_def settled_def integrate_def checkBoundaries_def checkX_def
  checkY_def Let_def js_rem_def js_trunc_def ceiling_def math_round_def
  requestAnimationFrame_def

section \<open>The claims\<close>

text \<open>
  C1. In a viewport wider and higher than the button, a tick (a call of \<open>animate\<close>
  that is not cut short by a drag, and so runs its boundary check) leaves the body inside
  the viewport: \<open>0 \<le> posX \<le> W - buttonWidth\<close> and \<open>0 \<le> posY \<le> H - buttonHeight\<close>.
\<close>

theorem tick_stays_in_viewport:
  assumes "\<not> isDragging s"
    and "innerWidth e > buttonWidth"
    and "innerHeight e > buttonHeight"
  shows "0 \<le> posX (animate e s) \<and> posX (animate e s) \<le> innerWidth e - buttonWidth \<and>
         0 \<le> posY (animate e s) \<and> posY (animate e s) \<le> innerHeight e - buttonHeight"
  using assms
  by (simp add: animate_pos integrate_spec_tick spec_tick_pos
      checkBoundaries_posX checkBoundaries_posY)

theorem tick_stays_in_viewport_witness:
  "\<not> isDragging corner \<and> innerWidth viewport > buttonWidth \<and>
   innerHeight viewport > buttonHeight \<and>
   0 \<le> posX (animate viewport corner) \<and>
   posX (animate viewport corner) \<le> innerWidth viewport - buttonWidth \<and>
   0 \<le> posY (animate viewport corner) \<and>
   posY (animate viewport corner) \<le> innerHeight viewport - buttonHeight"
proof -
  have h: "\<not> isDragging corner" "innerWidth viewport > buttonWidth"
    "innerHeight viewport > buttonHeight"
    by (simp_all add: corner_def scenarioC_def viewport_def params)
  from tick_stays_in_viewport [OF h] h show ?thesis by simp
qed

text \<open>
  C5, as stated, fails in two ways. Where the body is left of the viewport and past its
  right edge at once (the viewport \<open>slit\<close> is narrower than the button), the left branch
  runs and the right one does not: \<open>posX\<close> becomes 0, not \<open>W - buttonWidth = -20\<close>. And
  where a Y edge is hit in the same call, the angular velocity that the check returns is
  not the right branch's: for the body \<open>corner\<close> it is the top branch's \<open>-70\<close>, not
  \<open>vy * rotationMultiplier = 0.2\<close>.
\<close>

theorem right_wall_counterexample:
  "posX above > innerWidth slit - buttonWidth \<and>
   innerWidth slit - buttonWidth = - 20 \<and>
   posX (fst (checkX slit above)) = 0 \<and>
   posX (fst (checkBoundaries slit above)) = 0 \<and>
   posX corner > innerWidth viewport - buttonWidth \<and>
   velocityY corner * rotationMultiplier = 0.2 \<and>
   angularVelocity (fst (checkBoundaries viewport corner)) = - 70"
  by (simp add: evaluate fixtures params)

text \<open>
  C5, amended. For every state with \<open>posX > W - buttonWidth\<close> and \<open>posX \<ge> 0\<close> the X
  block of the boundary check sets \<open>posX = W - buttonWidth\<close>, \<open>vx = -vx * bounce\<close> (so
  \<open>-350\<close> for an incoming \<open>500\<close>) and \<open>angularVelocity = vy * rotationMultiplier\<close>, and
  marks a hit. The check returns that position and reports the hit; it returns that
  \<open>vx\<close> unless the floor branch fires in the same call, and that angular velocity if no
  Y branch fires in the same call.
\<close>

theorem right_wall_resolution:
  assumes "posX s > innerWidth e - buttonWidth" and "0 \<le> posX s"
  shows "checkX e s =
           (s\<lparr>posX := innerWidth e - buttonWidth,
              velocityX := - velocityX s * bounce,
              angularVelocity := velocityY s * rotationMultiplier\<rparr>, True) \<and>
         (velocityX s = 500 \<longrightarrow> velocityX (fst (checkX e s)) = - 350) \<and>
         posX (fst (checkBoundaries e s)) = innerWidth e - buttonWidth \<and>
         snd (checkBoundaries e s) \<and>
         (\<not> (0 \<le> posY s \<and> posY s > innerHeight e - buttonHeight) \<longrightarrow>
            velocityX (fst (checkBoundaries e s)) = - velocityX s * bounce) \<and>
         (0 \<le> posY s \<and> posY s \<le> innerHeight e - buttonHeight \<longrightarrow>
            angularVelocity (fst (checkBoundaries e s)) = velocityY s * rotationMultiplier)"
proof -
  have 1: "checkX e s =
           (s\<lparr>posX := innerWidth e - buttonWidth,
              velocityX := - velocityX s * bounce,
              angularVelocity := velocityY s * rotationMultiplier\<rparr>, True)"
    using assms by (simp add: checkX_def Let_def)
  have 2: "velocityX s = 500 \<longrightarrow> velocityX (fst (checkX e s)) = - 350"
    by (simp add: 1 bounce_def)
  have 3: "posX (fst (checkBoundaries e s)) = innerWidth e - buttonWidth"
    "snd (checkBoundaries e s)"
    using assms by (simp_all add: checkBoundaries_posX checkBoundaries_hit)
  have 4: "\<not> (0 \<le> posY s \<and> posY s > innerHeight e - buttonHeight) \<longrightarrow>
            velocityX (fst (checkBoundaries e s)) = - velocityX s * bounce"
    using assms by (simp add: checkBoundaries_velocityX checkX_velocityX)
  have 5: "0 \<le> posY s \<and> posY s \<le> innerHeight e - buttonHeight \<longrightarrow>
            angularVelocity (fst (checkBoundaries e s)) = velocityY s * rotationMultiplier"
    using assms by (simp add: checkBoundaries_angularVelocity)
  from 1 2 3 4 5 show ?thesis by blast
qed

theorem right_wall_resolution_witness:
  "posX rightwall > innerWidth viewport - buttonWidth \<and> 0 \<le> posX rightwall \<and>
   velocityX rightwall = 500 \<and>
   0 \<le> posY rightwall \<and> posY rightwall \<le> innerHeight viewport - buttonHeight \<and>
   velocityX (fst (checkX viewport rightwall)) = - 350 \<and>
   posX (fst (checkBoundaries viewport rightwall)) = 880 \<and>
   snd (checkBoundaries viewport rightwall) \<and>
   velocityX (fst (checkBoundaries viewport rightwall)) = - 350 \<and>
   angularVelocity (fst (checkBoundaries viewport rightwall)) = 8"
proof -
  have h: "posX rightwall > innerWidth viewport - buttonWidth" "0 \<le> posX rightwall"
    by (simp_all add: fixtures params)
  have f: "velocityX rightwall = 500" "velocityY rightwall = 40"
    "0 \<le> posY rightwall \<and> posY rightwall \<le> innerHeight viewport - buttonHeight"
    "innerWidth viewport - buttonWidth = 880"
    by (simp_all add: fixtures params)
  from right_wall_resolution [OF h] f
  have "velocityX (fst (checkX viewport rightwall)) = - 350 \<and>
        posX (fst (checkBoundaries viewport rightwall)) = 880 \<and>
        snd (checkBoundaries viewport rightwall) \<and>
        velocityX (fst (checkBoundaries viewport rightwall)) = - 350 \<and>
        angularVelocity (fst (checkBoundaries viewport rightwall)) = 8"
    by (simp add: params)
  with h f show ?thesis by blast
qed

text \<open>
  C6, as stated, fails where the body is above the ceiling and below the floor at once:
  in the viewport \<open>slit\<close> the body \<open>above\<close> has \<open>posY = -5 > 40 - 56\<close>, and the check
  runs the ceiling branch only: \<open>posY\<close> becomes 0 and not \<open>-16\<close>, and \<open>vx\<close> is left at
  the \<open>-7\<close> of the X block, without the floor's damping.
\<close>

theorem floor_under_ceiling_counterexample:
  "posY above > innerHeight slit - buttonHeight \<and>
   innerHeight slit - buttonHeight = - 16 \<and>
   posY (fst (checkBoundaries slit above)) = 0 \<and>
   velocityX (fst (checkX slit above)) = - 7 \<and>
   velocityX (fst (checkBoundaries slit above)) = - 7 \<and>
   angularVelocity (fst (checkBoundaries slit above)) = - 1.4"
  by (simp add: evaluate fixtures params)

text \<open>
  C6, amended. For every state with \<open>posY > H - buttonHeight\<close> and \<open>posY \<ge> 0\<close> the
  boundary check clamps \<open>posY\<close>, sets \<open>vy = -vy * bounce\<close>, sets
  \<open>angularVelocity = -vx * rotationMultiplier * 2\<close> and multiplies \<open>vx\<close> by
  \<open>friction * 0.9\<close>, where \<open>vx\<close> is the horizontal velocity that the X block of the same
  call has left, and reports a hit. The opposite branches of an axis exclude each other:
  where both conditions hold, only the first (ceiling, left edge) takes effect.
\<close>

theorem floor_resolution:
  "(0 \<le> posY s \<and> posY s > innerHeight e - buttonHeight \<longrightarrow>
      posY (fst (checkBoundaries e s)) = innerHeight e - buttonHeight \<and>
      velocityY (fst (checkBoundaries e s)) = - velocityY s * bounce \<and>
      angularVelocity (fst (checkBoundaries e s)) =
        - velocityX (fst (checkX e s)) * rotationMultiplier * 2 \<and>
      velocityX (fst (checkBoundaries e s)) = velocityX (fst (checkX e s)) * (friction * 0.9) \<and>
      snd (checkBoundaries e s)) \<and>
   (posY s < 0 \<and> posY s > innerHeight e - buttonHeight \<longrightarrow>
      posY (fst (checkBoundaries e s)) = 0 \<and>
      velocityY (fst (checkBoundaries e s)) = - velocityY s * bounce \<and>
      angularVelocity (fst (checkBoundaries e s)) =
        velocityX (fst (checkX e s)) * rotationMultiplier \<and>
      velocityX (fst (checkBoundaries e s)) = velocityX (fst (checkX e s))) \<and>
   (posX s < 0 \<and> posX s > innerWidth e - buttonWidth \<longrightarrow>
      posX (fst (checkBoundaries e s)) = 0 \<and>
      velocityX (fst (checkX e s)) = - velocityX s * bounce \<and>
      angularVelocity (fst (checkX e s)) = - velocityY s * rotationMultiplier)"
  by (simp add: checkBoundaries_posX checkBoundaries_posY checkBoundaries_hit
      checkBoundaries_velocityX checkBoundaries_velocityY checkBoundaries_angularVelocity)
     (simp add: checkX_def Let_def)

theorem floor_resolution_witness:
  "(0 \<le> posY sunk \<and> posY sunk > innerHeight viewport - buttonHeight) \<and>
   posY (fst (checkBoundaries viewport sunk)) = 744 \<and>
   velocityY (fst (checkBoundaries viewport sunk)) = - 14 \<and>
   angularVelocity (fst (checkBoundaries viewport sunk)) = - 4 \<and>
   velocityX (fst (checkBoundaries viewport sunk)) = 8.82 \<and>
   snd (checkBoundaries viewport sunk) \<and>
   (posY above < 0 \<and> posY above > innerHeight slit - buttonHeight) \<and>
   posY (fst (checkBoundaries slit above)) = 0 \<and>
   velocityY (fst (checkBoundaries slit above)) = 14 \<and>
   (posX above < 0 \<and> posX above > innerWidth slit - buttonWidth) \<and>
   posX (fst (checkBoundaries slit above)) = 0 \<and>
   velocityX (fst (checkBoundaries slit above)) = - 7"
proof -
  have h1: "0 \<le> posY sunk \<and> posY sunk > innerHeight viewport - buttonHeight"
    by (simp add: fixtures params)
  have h2: "posY above < 0 \<and> posY above > innerHeight slit - buttonHeight"
    "posX above < 0 \<and> posX above > innerWidth slit - buttonWidth"
    by (simp_all add: fixtures params)
  have a: "velocityX (fst (checkX viewport sunk)) = 10"
    by (simp add: checkX_def Let_def fixtures params)
  have f: "velocityY sunk = 20" "velocityX above = 10" "velocityY above = - 20"
    "innerHeight viewport - buttonHeight = 744"
    by (simp_all add: fixtures params)
  from floor_resolution [of sunk viewport] h1 a f
  have 1: "posY (fst (checkBoundaries viewport sunk)) = 744 \<and>
      velocityY (fst (checkBoundaries viewport sunk)) = - 14 \<and>
      angularVelocity (fst (checkBoundaries viewport sunk)) = - 4 \<and>
      velocityX (fst (checkBoundaries viewport sunk)) = 8.82 \<and>
      snd (checkBoundaries viewport sunk)"
    by (simp add: params)
  from floor_resolution [of above slit] h2 f
  have 2: "posY (fst (checkBoundaries slit above)) = 0 \<and>
      velocityY (fst (checkBoundaries slit above)) = 14 \<and>
      posX (fst (checkBoundaries slit above)) = 0 \<and>
      velocityX (fst (checkBoundaries slit above)) = - 7"
    by (simp add: params)
  from h1 h2 1 2 show ?thesis by blast
qed

text \<open>
  C10. When an X branch and a Y branch fire in the same call, the angular velocity that
  the check returns is the one the Y branch assigns: whatever value the X block has left
  in the reference, the Y block returns the same. It is a function of the reflected
  horizontal velocity alone. Both linear velocities stay reflected (the floor damps the
  horizontal one further).
\<close>

theorem corner_hit_spin:
  assumes x: "posX s < 0 \<or> posX s > innerWidth e - buttonWidth"
    and y: "posY s < 0 \<or> posY s > innerHeight e - buttonHeight"
  shows "(\<forall>a h. angularVelocity (fst (checkY e ((fst (checkX e s))\<lparr>angularVelocity := a\<rparr>) h)) =
              angularVelocity (fst (checkBoundaries e s))) \<and>
         angularVelocity (fst (checkBoundaries e s)) =
           (if posY s < 0 then (- velocityX s * bounce) * rotationMultiplier
            else - (- velocityX s * bounce) * rotationMultiplier * 2) \<and>
         velocityY (fst (checkBoundaries e s)) = - velocityY s * bounce \<and>
         velocityX (fst (checkBoundaries e s)) =
           (if posY s < 0 then - velocityX s * bounce
            else (- velocityX s * bounce) * (friction * 0.9))"
proof -
  from x have ax: "velocityX (fst (checkX e s)) = - velocityX s * bounce"
    by (elim disjE) (simp_all add: checkX_velocityX)
  have a: "angularVelocity (fst (checkBoundaries e s)) =
           (if posY s < 0 then (- velocityX s * bounce) * rotationMultiplier
            else - (- velocityX s * bounce) * rotationMultiplier * 2)"
    using y by (elim disjE) (simp_all add: checkBoundaries_angularVelocity ax)
  have b: "velocityY (fst (checkBoundaries e s)) = - velocityY s * bounce"
    using y by (elim disjE) (simp_all add: checkBoundaries_velocityY)
  have c: "velocityX (fst (checkBoundaries e s)) =
           (if posY s < 0 then - velocityX s * bounce
            else (- velocityX s * bounce) * (friction * 0.9))"
    using y by (elim disjE) (simp_all add: checkBoundaries_velocityX ax)
  from a b c checkY_spin_overwrites [OF y] show ?thesis by blast
qed

theorem corner_hit_spin_witness:
  "(posX corner < 0 \<or> posX corner > innerWidth viewport - buttonWidth) \<and>
   (posY corner < 0 \<or> posY corner > innerHeight viewport - buttonHeight) \<and>
   angularVelocity (fst (checkX viewport corner)) = 0.2 \<and>
   angularVelocity (fst (checkBoundaries viewport corner)) = - 70 \<and>
   angularVelocity (fst (checkY viewport ((fst (checkX viewport corner))\<lparr>angularVelocity := 1000\<rparr>) True)) = - 70 \<and>
   velocityY (fst (checkBoundaries viewport corner)) = - 0.7 \<and>
   velocityX (fst (checkBoundaries viewport corner)) = - 350"
proof -
  have h: "posX corner < 0 \<or> posX corner > innerWidth viewport - buttonWidth"
    "posY corner < 0 \<or> posY corner > innerHeight viewport - buttonHeight"
    by (simp_all add: fixtures params)
  have f: "posY corner = - 5" "velocityX corner = 500" "velocityY corner = 1"
    by (simp_all add: fixtures)
  have g: "angularVelocity (fst (checkX viewport corner)) = 0.2"
    by (simp add: checkX_def Let_def fixtures params)
  note t = corner_hit_spin [OF h]
  from t have a: "angularVelocity (fst (checkBoundaries viewport corner)) = - 70"
    by (simp add: f params)
  from t have "angularVelocity (fst (checkY viewport ((fst (checkX viewport corner))\<lparr>angularVelocity := 1000\<rparr>) True)) =
     angularVelocity (fst (checkBoundaries viewport corner))"
    by blast
  with a have b: "angularVelocity (fst (checkY viewport ((fst (checkX viewport corner))\<lparr>angularVelocity := 1000\<rparr>) True)) = - 70"
    by simp
  from t have c: "velocityY (fst (checkBoundaries viewport corner)) = - 0.7"
    "velocityX (fst (checkBoundaries viewport corner)) = - 350"
    by (simp_all add: f params)
  from h g a b c show ?thesis by blast
qed

text \<open>
  C7. A tick takes an elapsed time of at most 50 milliseconds and is the composition, in
  this order, of: gravity added to \<open>vy\<close> as it is (not scaled by the elapsed time);
  both velocities multiplied by \<open>friction\<close>; the position advanced by
  \<open>velocity * dt / 1000\<close>; the boundary check; the angular velocity damped by
  \<open>rotationFriction\<close> and the rotation advanced by it, modulo 360. The model of the
  source agrees with the steps as the specification words them.
\<close>

theorem integrator_order:
  "min (now e - lastTime s) 50 \<le> 50 \<and>
   integrate e s =
     (let dt = min (now e - lastTime s) 50;
          a = spec_gravity (s\<lparr>lastTime := now e\<rparr>);
          b = spec_friction a;
          c = spec_advance dt b;
          (d, hit) = checkBoundaries e c
      in (spec_rotate dt d, hit)) \<and>
   velocityY (spec_friction (spec_gravity s)) = (velocityY s + gravity) * friction \<and>
   posY (spec_advance dt (spec_friction (spec_gravity s))) =
     posY s + (velocityY s + gravity) * friction * dt / 1000 \<and>
   posX (spec_advance dt (spec_friction (spec_gravity s))) =
     posX s + velocityX s * friction * dt / 1000 \<and>
   rotation (spec_rotate dt s) =
     js_rem (rotation s + angularVelocity s * rotationFriction * dt / 1000) 360 \<and>
   (\<not> isDragging s \<and> \<not> settled e (fst (integrate e s)) \<longrightarrow>
      animate e s =
        (fst (integrate e s))\<lparr>pending := pending s @ [nextHandle s],
          nextHandle := Suc (nextHandle s), animationId := nextHandle s\<rparr>) \<and>
   (\<not> isDragging s \<longrightarrow>
      posX (animate e s) = posX (fst (integrate e s)) \<and>
      posY (animate e s) = posY (fst (integrate e s)))"
proof -
  have 1: "integrate e s =
     (let dt = min (now e - lastTime s) 50;
          a = spec_gravity (s\<lparr>lastTime := now e\<rparr>);
          b = spec_friction a;
          c = spec_advance dt b;
          (d, hit) = checkBoundaries e c
      in (spec_rotate dt d, hit))"
    by (simp add: integrate_spec_tick spec_tick_def Let_def)
  have 2: "velocityY (spec_friction (spec_gravity s)) = (velocityY s + gravity) * friction"
    "posY (spec_advance dt (spec_friction (spec_gravity s))) =
       posY s + (velocityY s + gravity) * friction * dt / 1000"
    "posX (spec_advance dt (spec_friction (spec_gravity s))) =
       posX s + velocityX s * friction * dt / 1000"
    "rotation (spec_rotate dt s) =
       js_rem (rotation s + angularVelocity s * rotationFriction * dt / 1000) 360"
    by (simp_all add: spec_friction_def spec_gravity_def spec_advance_def spec_rotate_def Let_def)
  have 3: "\<not> isDragging s \<and> \<not> settled e (fst (integrate e s)) \<longrightarrow>
      animate e s =
        (fst (integrate e s))\<lparr>pending := pending s @ [nextHandle s],
          nextHandle := Suc (nextHandle s), animationId := nextHandle s\<rparr>"
    by (simp add: animate_unsettled Let_def integrate_other)
  have 4: "\<not> isDragging s \<longrightarrow>
      posX (animate e s) = posX (fst (integrate e s)) \<and>
      posY (animate e s) = posY (fst (integrate e s))"
    by (simp add: animate_pos)
  from 1 2 3 4 show ?thesis by simp
qed

theorem integrator_order_witness:
  "\<not> isDragging spinning \<and> \<not> settled viewport (fst (integrate viewport spinning)) \<and>
   now viewport - lastTime spinning = 1016 \<and>
   min (now viewport - lastTime spinning) 50 = 50 \<and>
   velocityY (animate viewport spinning) = 0.49 \<and>
   posY (animate viewport spinning) = 100.0245 \<and>
   angularVelocity (animate viewport spinning) = - 96 \<and>
   rotation (animate viewport spinning) = - 4.8 \<and>
   pending (animate viewport spinning) = [1]"
proof -
  have i: "integrate viewport spinning =
    (spinning\<lparr>lastTime := 16, velocityY := 0.49, posY := 100.0245, angularVelocity := - 96,
       rotation := - 4.8\<rparr>, False)"
    by (simp add: evaluate fixtures params)
  have h: "\<not> isDragging spinning" "\<not> settled viewport (fst (integrate viewport spinning))"
    by (simp_all add: i settled_def) (simp_all add: fixtures params)
  have d: "now viewport - lastTime spinning = 1016"
    by (simp add: fixtures)
  have p: "pending spinning = []" "nextHandle spinning = 1"
    by (simp_all add: fixtures)
  from integrator_order [of viewport spinning 50] h
  have "animate viewport spinning =
        (fst (integrate viewport spinning))\<lparr>pending := pending spinning @ [nextHandle spinning],
          nextHandle := Suc (nextHandle spinning), animationId := nextHandle spinning\<rparr>"
    by blast
  then show ?thesis using h d by (simp add: i p)
qed

text \<open>
  C2. From \<open>vx = 0.005\<close>, \<open>vy = 0.02\<close>, \<open>angularVelocity = 0.005\<close> and
  \<open>posY = H - buttonHeight\<close> the next tick should zero the three velocities, snap the
  rotation to the nearest multiple of 90 degrees and request no further frame: lines 140
  to 155 are there to stop the animation when the speed is very small and to align the
  button. The code does not do it. The tick adds gravity before the test, the body goes
  through the floor and is reflected, and the test reads \<open>vy = -0.35672\<close>: no velocity
  is zeroed, the rotation of 83 degrees is not snapped to 90, and frame 1 is requested.
  By lemma \<open>resting_tick_requests_another\<close> the same holds in every later tick.
\<close>

theorem resting_body_keeps_bouncing:
  "velocityX scenarioC = 0.005 \<and> velocityY scenarioC = 0.02 \<and>
   angularVelocity scenarioC = 0.005 \<and> posY scenarioC = innerHeight viewport - buttonHeight \<and>
   \<not> isDragging scenarioC \<and> rotation scenarioC = 83 \<and> pending scenarioC = [] \<and>
   velocityX (animate viewport scenarioC) = 0.0043218 \<and>
   velocityY (animate viewport scenarioC) = - 0.35672 \<and>
   angularVelocity (animate viewport scenarioC) = - 0.0018816 \<and>
   rotation (animate viewport scenarioC) \<noteq> 90 \<and>
   posY (animate viewport scenarioC) = innerHeight viewport - buttonHeight \<and>
   pending (animate viewport scenarioC) = [1] \<and>
   animationId (animate viewport scenarioC) = 1"
  by (simp add: evaluate fixtures params)

text \<open>
  C3, as stated, fails twice. A body that spins backwards gets a negative rotation,
  since \<open>%\<close> keeps the sign of the dividend; and the snap of a rotation of 350 degrees
  gives 360, that of \<open>-350\<close> degrees \<open>-360\<close>.
\<close>

theorem rotation_counterexample:
  "rotation (animate viewport spinning) = - 4.8 \<and>
   rotation (animate viewport (balanced\<lparr>rotation := 350\<rparr>)) = 360 \<and>
   rotation (animate viewport (balanced\<lparr>rotation := - 350\<rparr>)) = - 360"
  by (simp add: evaluate fixtures params)

text \<open>
  C3, amended. After the modulo of a tick the rotation lies strictly between \<open>-360\<close>
  and \<open>360\<close>. After the whole tick it lies between \<open>-360\<close> and \<open>360\<close>, both
  included: the settlement snap, where it applies, gives a multiple of 90, and otherwise
  the value of the modulo stands.
\<close>

theorem rotation_within_one_turn:
  "- 360 < rotation (fst (integrate e s)) \<and> rotation (fst (integrate e s)) < 360 \<and>
   (\<not> isDragging s \<longrightarrow>
      - 360 \<le> rotation (animate e s) \<and> rotation (animate e s) \<le> 360 \<and>
      (settled e (fst (integrate e s)) \<and> \<not> snd (integrate e s) \<longrightarrow>
         (\<exists>k::int. rotation (animate e s) = of_int k * 90)) \<and>
      (\<not> (settled e (fst (integrate e s)) \<and> \<not> snd (integrate e s)) \<longrightarrow>
         rotation (animate e s) = rotation (fst (integrate e s))))"
proof -
  note b = integrate_rotation_bounds [of e s]
  have "\<not> isDragging s \<Longrightarrow> settled e (fst (integrate e s)) \<Longrightarrow> \<not> snd (integrate e s) \<Longrightarrow>
        rotation (animate e s) = math_round (rotation (fst (integrate e s)) / 90) * 90"
    by (simp add: animate_settled Let_def)
  moreover have "\<not> isDragging s \<Longrightarrow> settled e (fst (integrate e s)) \<Longrightarrow> snd (integrate e s) \<Longrightarrow>
        rotation (animate e s) = rotation (fst (integrate e s))"
    by (simp add: animate_settled Let_def)
  moreover have "\<not> isDragging s \<Longrightarrow> \<not> settled e (fst (integrate e s)) \<Longrightarrow>
        rotation (animate e s) = rotation (fst (integrate e s))"
    by (simp add: animate_unsettled Let_def)
  moreover have "\<exists>k::int. math_round (rotation (fst (integrate e s)) / 90) * 90 = of_int k * 90"
    unfolding math_round_def by blast
  moreover note math_round_quarter [of "rotation (fst (integrate e s))"]
  ultimately show ?thesis using b
    by (cases "settled e (fst (integrate e s))"; cases "snd (integrate e s)") auto
qed

theorem rotation_within_one_turn_witness:
  "\<not> isDragging (balanced\<lparr>rotation := - 350\<rparr>) \<and>
   settled viewport (fst (integrate viewport (balanced\<lparr>rotation := - 350\<rparr>))) \<and>
   \<not> snd (integrate viewport (balanced\<lparr>rotation := - 350\<rparr>)) \<and>
   rotation (fst (integrate viewport (balanced\<lparr>rotation := - 350\<rparr>))) = - 350 \<and>
   - 360 \<le> rotation (animate viewport (balanced\<lparr>rotation := - 350\<rparr>)) \<and>
   rotation (animate viewport (balanced\<lparr>rotation := - 350\<rparr>)) \<le> 360 \<and>
   (\<exists>k::int. rotation (animate viewport (balanced\<lparr>rotation := - 350\<rparr>)) = of_int k * 90)"
proof -
  have i: "integrate viewport (balanced\<lparr>rotation := - 350\<rparr>) =
    (balanced\<lparr>rotation := - 350, lastTime := 16, velocityY := 0\<rparr>, False)"
    by (simp add: evaluate fixtures params)
  have h: "\<not> isDragging (balanced\<lparr>rotation := - 350\<rparr>)"
    "settled viewport (fst (integrate viewport (balanced\<lparr>rotation := - 350\<rparr>)))"
    "\<not> snd (integrate viewport (balanced\<lparr>rotation := - 350\<rparr>))"
    "rotation (fst (integrate viewport (balanced\<lparr>rotation := - 350\<rparr>))) = - 350"
    by (simp_all add: i settled_def) (simp_all add: fixtures params)
  from rotation_within_one_turn [of viewport "balanced\<lparr>rotation := - 350\<rparr>"] h
  show ?thesis by blast
qed

text \<open>
  C4. \<open>hasDropped\<close> is a latch. A scroll event with \<open>scrollY > 50\<close> that finds it
  false sets it and sets \<open>posY = H - buttonHeight - 20\<close>, and changes nothing else; a
  scroll event with a smaller offset changes nothing. Once it is set, no sequence of
  events of any kind resets it, and every later scroll event leaves the whole state as
  it is.
\<close>

theorem hasDropped_latch:
  "(\<not> hasDropped s \<and> scrollY e > 50 \<longrightarrow>
      handleScroll e s = s\<lparr>hasDropped := True, posY := innerHeight e - buttonHeight - 20\<rparr> \<and>
      (\<forall>evs e'. hasDropped (run (handleScroll e s) evs) \<and>
         handleScroll e' (run (handleScroll e s) evs) = run (handleScroll e s) evs)) \<and>
   (\<not> scrollY e > 50 \<longrightarrow> handleScroll e s = s) \<and>
   (hasDropped s \<longrightarrow> handleScroll e s = s \<and> hasDropped (run s evs))"
proof -
  have a: "handleScroll e' u = u" if "hasDropped u" for e' u
    using that by (simp add: handleScroll_def)
  have b: "hasDropped (handleScroll e s)" if "\<not> hasDropped s \<and> scrollY e > 50"
    using that by (simp add: handleScroll_def)
  have c: "handleScroll e s = s\<lparr>hasDropped := True, posY := innerHeight e - buttonHeight - 20\<rparr>"
    if "\<not> hasDropped s \<and> scrollY e > 50"
    using that by (simp add: handleScroll_def)
  have d: "handleScroll e s = s" if "\<not> scrollY e > 50"
    using that by (simp add: handleScroll_def)
  from a b c d run_hasDropped show ?thesis by metis
qed

theorem hasDropped_latch_witness:
  "(\<not> hasDropped (mounted viewport) \<and> scrollY scrolled > 50) \<and>
   hasDropped (handleScroll scrolled (mounted viewport)) \<and>
   posY (handleScroll scrolled (mounted viewport)) = 724 \<and>
   handleScroll scrolled (handleScroll scrolled (mounted viewport)) =
     handleScroll scrolled (mounted viewport) \<and>
   hasDropped (run (handleScroll scrolled (mounted viewport)) clicks)"
proof -
  have h: "\<not> hasDropped (mounted viewport) \<and> scrollY scrolled > 50"
    by (simp add: mounted_def scrolled_def viewport_def)
  have f: "innerHeight scrolled - buttonHeight - 20 = 724"
    by (simp add: scrolled_def viewport_def params)
  from hasDropped_latch [of "mounted viewport" scrolled] h
  have 1: "handleScroll scrolled (mounted viewport) =
        (mounted viewport)\<lparr>hasDropped := True, posY := innerHeight scrolled - buttonHeight - 20\<rparr>"
    and 2: "\<forall>evs e'. hasDropped (run (handleScroll scrolled (mounted viewport)) evs) \<and>
         handleScroll e' (run (handleScroll scrolled (mounted viewport)) evs) =
           run (handleScroll scrolled (mounted viewport)) evs"
    by blast+
  from 2 have 3: "hasDropped (run (handleScroll scrolled (mounted viewport)) clicks)"
    by blast
  from 2 have "handleScroll scrolled (run (handleScroll scrolled (mounted viewport)) []) =
           run (handleScroll scrolled (mounted viewport)) []"
    by blast
  then have 4: "handleScroll scrolled (handleScroll scrolled (mounted viewport)) =
     handleScroll scrolled (mounted viewport)"
    by (simp add: run_def)
  have 5: "hasDropped (handleScroll scrolled (mounted viewport))"
    "posY (handleScroll scrolled (mounted viewport)) = 724"
    by (simp_all add: 1 f)
  from h 3 4 5 show ?thesis by blast
qed



text \<open>
  C9. Its first half holds: \<open>animate\<close> returns at once while a drag is active (lemma
  \<open>animate_dragging\<close>). Its second half fails on the code. \<open>stopDrag\<close> runs on every
  release of a pointer in the document, dragging or not, and calls \<open>animate\<close>; the new
  frame's handle overwrites \<open>animationId\<close> while the frame requested before stays in
  the queue. \<open>startDrag\<close> cancels the handle in \<open>animationId\<close> only. After the
  events \<open>clicks\<close> the button is being dragged, handle 3 has been cancelled and
  frame 2 is still pending; after a quick release two loops are running.
\<close>

theorem stray_release_second_loop:
  "isDragging (run (mounted viewport) clicks) \<and>
   animationId (run (mounted viewport) clicks) = 3 \<and>
   pending (run (mounted viewport) clicks) = [2] \<and>
   \<not> isDragging (run (mounted viewport) (clicks @ release)) \<and>
   pending (run (mounted viewport) (clicks @ release)) = [4, 5]"
  by (simp add: run_def clicks_def release_def stopDrag_def startDrag_def
      cancelAnimationFrame_def mounted_def evaluate fixtures params)

end
